theory Spec2Isabelle
  imports Complex_Main "HOL-Library.Sublist" "HOL-Library.AList"
begin

section \<open>JavaScript strings, values and errors\<close>

text \<open>
  Strings are lists of code units, restricted to the 8-bit range (Latin-1). The helpers
  below are the \<^verbatim>\<open>String.prototype\<close> methods the program calls.
\<close>

definition is_space :: "char \<Rightarrow> bool" where
  "is_space c = (of_char c \<in> {9, 10, 11, 12, 13, 32, 160 :: nat})"

definition trim :: "string \<Rightarrow> string" where
  "trim s = rev (dropWhile is_space (rev (dropWhile is_space s)))"

definition lower_char :: "char \<Rightarrow> char" where
  "lower_char c =
     (let n = (of_char c :: nat)
      in if (65 \<le> n \<and> n \<le> 90) \<or> (192 \<le> n \<and> n \<le> 222 \<and> n \<noteq> 215)
         then char_of (n + 32) else c)"

definition toLowerCase :: "string \<Rightarrow> string" where
  "toLowerCase s = map lower_char s"

definition endsWith :: "string \<Rightarrow> string \<Rightarrow> bool" where
  "endsWith s suf = suffix suf s"

fun includes_str :: "string \<Rightarrow> string \<Rightarrow> bool" where
  "includes_str [] sub = (sub = [])"
| "includes_str (c # cs) sub = (prefix sub (c # cs) \<or> includes_str cs sub)"

text \<open>
  \<^verbatim>\<open>Number.prototype.toString\<close> on a non-negative integer below \<open>10^21\<close>
  (every \<^verbatim>\<open>Date.now()\<close> and every HTTP status is one): its decimal numeral.
\<close>

definition digit_char :: "nat \<Rightarrow> char" where
  "digit_char d = ''0123456789'' ! d"

fun show_nat :: "nat \<Rightarrow> string" where
  "show_nat n = (if n < 10 then [digit_char n] else show_nat (n div 10) @ [digit_char (n mod 10)])"

declare show_nat.simps [simp del]

text \<open>
  A value produced by \<^verbatim>\<open>JSON.parse\<close>. \<open>JObj\<close> lists the own properties of
  the object. The result of reading a property is a \<open>json option\<close>, where \<open>None\<close>
  is \<^verbatim>\<open>undefined\<close>. Numbers are taken as reals (the program compares them with
  zero, hands them on and prints them); \<^verbatim>\<open>NaN\<close> and the infinities, which JSON
  cannot carry, are left out.
\<close>

datatype json =
    JNull
  | JBool bool
  | JNum real
  | JStr string
  | JArr "json list"
  | JObj "(string \<times> json) list"

datatype err_class = PlainError | TypeError | SyntaxError | OtherError

record js_error =
  err_class :: err_class
  err_message :: string

definition new_Error :: "string \<Rightarrow> js_error" where
  "new_Error m = \<lparr>err_class = PlainError, err_message = m\<rparr>"

text \<open>
  What the program takes from the JavaScript engine and the browser and does not define
  itself: number formatting and parsing, \<^verbatim>\<open>btoa\<close>, and the message texts of the
  \<^verbatim>\<open>TypeError\<close>s the engine raises.
\<close>

record engine =
  numToString :: "real \<Rightarrow> string"
  parseFloat :: "string \<Rightarrow> real"
  btoa :: "string \<Rightarrow> js_error + string"
  null_read_msg :: "string \<Rightarrow> string"
  not_function_msg :: "string \<Rightarrow> string"
  to_primitive_msg :: string

definition truthy :: "json option \<Rightarrow> bool" where
  "truthy v =
     (case v of
        None \<Rightarrow> False
      | Some JNull \<Rightarrow> False
      | Some (JBool b) \<Rightarrow> b
      | Some (JNum n) \<Rightarrow> n \<noteq> 0
      | Some (JStr s) \<Rightarrow> s \<noteq> []
      | Some (JArr _) \<Rightarrow> True
      | Some (JObj _) \<Rightarrow> True)"

text \<open>
  Reading one of the properties this program reads (\<^verbatim>\<open>response\<close>, \<^verbatim>\<open>error\<close>,
  \<^verbatim>\<open>status\<close>, \<^verbatim>\<open>filename\<close>, \<^verbatim>\<open>success\<close>): none of them is
  inherited from a prototype, so a primitive or an array has none, and reading from
  \<^verbatim>\<open>null\<close> throws.
\<close>

definition get_prop :: "engine \<Rightarrow> json \<Rightarrow> string \<Rightarrow> js_error + json option" where
  "get_prop eng v p =
     (case v of
        JNull \<Rightarrow> Inl \<lparr>err_class = TypeError, err_message = null_read_msg eng p\<rparr>
      | JObj kvs \<Rightarrow> Inr (map_of kvs p)
      | _ \<Rightarrow> Inr None)"

section \<open>The network as seen by \<^verbatim>\<open>api.ts\<close>\<close>

text \<open>
  \<^verbatim>\<open>fetch\<close> either rejects or resolves to a response; \<open>res_json\<close> is what
  \<^verbatim>\<open>response.json()\<close> settles to (\<open>Inl\<close> when the body does not parse).
\<close>

record response =
  res_status :: nat
  res_statusText :: string
  res_json :: "js_error + json"

datatype fetch_outcome = Rejected js_error | Resolved response

definition ok :: "response \<Rightarrow> bool" where
  "ok r = (200 \<le> res_status r \<and> res_status r \<le> 299)"

definition status_line :: "response \<Rightarrow> string" where
  "status_line r = show_nat (res_status r) @ '' '' @ res_statusText r"

record js_file =
  file_name :: string
  file_size :: nat

datatype req_body =
    NoBody
  | ChatBody string real
  | FormFile js_file
  | LoginBody string string

record request =
  req_url :: string
  req_method :: string
  req_headers :: "(string \<times> string) list"
  req_body :: req_body

definition auth_header :: "string option \<Rightarrow> (string \<times> string) list" where
  "auth_header authToken =
     (case authToken of
        None \<Rightarrow> []
      | Some t \<Rightarrow> if t = [] then [] else [(''Authorization'', ''Basic '' @ t)])"

subsection \<open>sendMessage\<close>

definition sendMessage_request :: "string option \<Rightarrow> string \<Rightarrow> real \<Rightarrow> request" where
  "sendMessage_request authToken message temperature =
     \<lparr>req_url = ''/chat'', req_method = ''POST'',
      req_headers = (''Content-Type'', ''application/json'') # auth_header authToken,
      req_body = ChatBody message temperature\<rparr>"

text \<open>The \<^verbatim>\<open>try\<close> block: \<open>Inl\<close> is the exception it throws.\<close>

definition sendMessage_try :: "engine \<Rightarrow> fetch_outcome \<Rightarrow> js_error + json option" where
  "sendMessage_try eng out =
     (case out of
        Rejected e \<Rightarrow> Inl e
      | Resolved r \<Rightarrow>
          if \<not> ok r then
            (if res_status r = 401 then Inl (new_Error ''Authentication required. Please login.'')
             else if res_status r = 404 then
               Inl (new_Error ''Service not found. Please check if the backend server is running.'')
             else if res_status r \<ge> 500 then Inl (new_Error ''Server error. Please try again later.'')
             else Inl (new_Error (''Backend error: '' @ status_line r)))
          else
            (case res_json r of
               Inl e \<Rightarrow> Inl e
             | Inr data \<Rightarrow> get_prop eng data ''response''))"

text \<open>
  The whole function. Its value is the \<^verbatim>\<open>response\<close> property of the object it
  resolves to; \<open>Inl\<close> would be a rejection.
\<close>

definition sendMessage :: "engine \<Rightarrow> fetch_outcome \<Rightarrow> js_error + json option" where
  "sendMessage eng out =
     (case sendMessage_try eng out of
        Inr v \<Rightarrow> Inr v
      | Inl error \<Rightarrow>
          if err_class error = TypeError \<and> includes_str (err_message error) ''fetch'' then
            Inr (Some (JStr
              ''Connection failed. Please check if the backend server is running and accessible.''))
          else if err_message error \<noteq> [] then Inr (Some (JStr (err_message error)))
          else Inr (Some (JStr ''An unexpected error occurred. Please try again.'')))"

subsection \<open>uploadFile\<close>

definition uploadFile_request :: "string option \<Rightarrow> js_file \<Rightarrow> request" where
  "uploadFile_request authToken f =
     \<lparr>req_url = ''/upload'', req_method = ''POST'',
      req_headers = auth_header authToken, req_body = FormFile f\<rparr>"

definition uploadFile_try :: "fetch_outcome \<Rightarrow> js_error + json" where
  "uploadFile_try out =
     (case out of
        Rejected e \<Rightarrow> Inl e
      | Resolved r \<Rightarrow>
          if \<not> ok r then
            (if res_status r = 401 then Inl (new_Error ''Authentication required. Please login.'')
             else if res_status r = 413 then
               Inl (new_Error ''File too large. Please upload a smaller file.'')
             else Inl (new_Error (''Upload failed: '' @ status_line r)))
          else res_json r)"

definition uploadFile :: "fetch_outcome \<Rightarrow> js_error + json" where
  "uploadFile out =
     (case uploadFile_try out of
        Inr data \<Rightarrow> Inr data
      | Inl error \<Rightarrow>
          if err_class error = TypeError \<and> includes_str (err_message error) ''fetch'' then
            Inr (JObj [(''error'', JStr
              ''Connection failed. Please check if the backend server is running and accessible.'')])
          else if err_message error \<noteq> [] then Inr (JObj [(''error'', JStr (err_message error))])
          else Inr (JObj [(''error'', JStr ''File upload failed. Please try again.'')]))"

subsection \<open>login\<close>

definition login_request :: "string \<Rightarrow> string \<Rightarrow> request" where
  "login_request username password =
     \<lparr>req_url = ''/login'', req_method = ''POST'',
      req_headers = [(''Content-Type'', ''application/json'')],
      req_body = LoginBody username password\<rparr>"

text \<open>
  The \<^verbatim>\<open>try\<close> block of \<^verbatim>\<open>login\<close>, on the module variable
  \<^verbatim>\<open>authToken\<close>: the result or the exception, and the token afterwards.
\<close>

definition login_try ::
  "engine \<Rightarrow> string \<Rightarrow> string \<Rightarrow> fetch_outcome \<Rightarrow> string option \<Rightarrow> (js_error + json) \<times> string option"
where
  "login_try eng username password out authToken =
     (case out of
        Rejected e \<Rightarrow> (Inl e, authToken)
      | Resolved r \<Rightarrow>
          if \<not> ok r then
            (if res_status r = 401 then (Inl (new_Error ''Invalid username or password.''), authToken)
             else if res_status r \<ge> 500 then
               (Inl (new_Error ''Server error. Please try again later.''), authToken)
             else (Inl (new_Error (''Login failed: '' @ status_line r)), authToken))
          else
            (case res_json r of
               Inl e \<Rightarrow> (Inl e, authToken)
             | Inr data \<Rightarrow>
                 (case get_prop eng data ''success'' of
                    Inl e \<Rightarrow> (Inl e, authToken)
                  | Inr s \<Rightarrow>
                      if truthy s then
                        (case btoa eng (username @ '':'' @ password) of
                           Inl e \<Rightarrow> (Inl e, authToken)
                         | Inr token \<Rightarrow> (Inr data, Some token))
                      else (Inr data, authToken))))"

definition login ::
  "engine \<Rightarrow> string \<Rightarrow> string \<Rightarrow> fetch_outcome \<Rightarrow> string option \<Rightarrow> (js_error + json) \<times> string option"
where
  "login eng username password out authToken =
     (case login_try eng username password out authToken of
        (Inr data, tok) \<Rightarrow> (Inr data, tok)
      | (Inl error, tok) \<Rightarrow>
          if err_class error = TypeError \<and> includes_str (err_message error) ''fetch'' then
            (Inr (JObj [(''success'', JBool False), (''message'', JStr
               ''Connection failed. Please check if the backend server is running and accessible.'')]),
             tok)
          else if err_message error \<noteq> [] then
            (Inr (JObj [(''success'', JBool False), (''message'', JStr (err_message error))]), tok)
          else
            (Inr (JObj [(''success'', JBool False),
               (''message'', JStr ''Login failed. Please check your credentials.'')]), tok))"

subsection \<open>getStatus, listDocuments, deleteDocument\<close>

definition get_request :: "string option \<Rightarrow> string \<Rightarrow> string \<Rightarrow> request" where
  "get_request authToken meth url =
     \<lparr>req_url = url, req_method = meth, req_headers = auth_header authToken, req_body = NoBody\<rparr>"

definition getStatus_try :: "fetch_outcome \<Rightarrow> js_error + json" where
  "getStatus_try out =
     (case out of
        Rejected e \<Rightarrow> Inl e
      | Resolved r \<Rightarrow>
          if \<not> ok r then
            (if res_status r = 401 then Inl (new_Error ''Authentication required. Please login.'')
             else if res_status r = 404 then
               Inl (new_Error ''Service not found. Please check if the backend server is running.'')
             else if res_status r \<ge> 500 then Inl (new_Error ''Server error. Please try again later.'')
             else Inl (new_Error (''Status check failed: '' @ status_line r)))
          else res_json r)"

text \<open>The \<^verbatim>\<open>catch\<close> block returns \<^verbatim>\<open>null\<close> on both of its branches.\<close>

definition getStatus :: "fetch_outcome \<Rightarrow> js_error + json" where
  "getStatus out =
     (case getStatus_try out of
        Inr data \<Rightarrow> Inr data
      | Inl error \<Rightarrow>
          if err_class error = TypeError \<and> includes_str (err_message error) ''fetch'' then Inr JNull
          else Inr JNull)"

definition listDocuments_try :: "fetch_outcome \<Rightarrow> js_error + json" where
  "listDocuments_try out =
     (case out of
        Rejected e \<Rightarrow> Inl e
      | Resolved r \<Rightarrow>
          if \<not> ok r then
            (if res_status r = 401 then Inl (new_Error ''Authentication required. Please login.'')
             else if res_status r \<ge> 500 then Inl (new_Error ''Server error. Please try again later.'')
             else Inl (new_Error (''Document list failed: '' @ status_line r)))
          else res_json r)"

text \<open>The \<^verbatim>\<open>catch\<close> block logs and throws the error again.\<close>

definition listDocuments :: "fetch_outcome \<Rightarrow> js_error + json" where
  "listDocuments out =
     (case listDocuments_try out of
        Inr data \<Rightarrow> Inr data
      | Inl error \<Rightarrow> Inl error)"

definition deleteDocument_try :: "fetch_outcome \<Rightarrow> js_error + json" where
  "deleteDocument_try out =
     (case out of
        Rejected e \<Rightarrow> Inl e
      | Resolved r \<Rightarrow>
          if \<not> ok r then
            (if res_status r = 401 then Inl (new_Error ''Authentication required. Please login.'')
             else if res_status r \<ge> 500 then Inl (new_Error ''Server error. Please try again later.'')
             else Inl (new_Error (''Document deletion failed: '' @ status_line r)))
          else res_json r)"

definition deleteDocument :: "fetch_outcome \<Rightarrow> js_error + json" where
  "deleteDocument out =
     (case deleteDocument_try out of
        Inr data \<Rightarrow> Inr data
      | Inl error \<Rightarrow> Inl error)"

section \<open>The Dashboard component\<close>

datatype role = User | Assistant

record message_item =
  msg_id :: string
  msg_role :: role
  content :: json
  timestamp :: nat

datatype doc_status = Processing | Completed | Failed

record document =
  doc_id :: string
  doc_name :: string
  doc_size :: nat
  uploadDate :: nat
  doc_status :: doc_status

datatype tab = ChatTab | DocumentsTab | SettingsTab

text \<open>
  The component's React state, followed by what it shares with the rest of the page:
  the module variable \<^verbatim>\<open>authToken\<close> of \<^verbatim>\<open>api.ts\<close>, the browser's
  \<^verbatim>\<open>localStorage\<close>, and the requests handed to \<^verbatim>\<open>fetch\<close> so far.
\<close>

record dashboard =
  messages :: "message_item list"
  inputValue :: string
  isUploading :: bool
  isProcessing :: bool
  activeTab :: tab
  documents :: "document list"
  temperature :: real
  model :: string
  darkMode :: bool
  uploadProgress :: nat
  processingStage :: string
  authToken :: "string option"
  localStorage :: "(string \<times> string) list"
  net_log :: "request list"

text \<open>
  A handler reads the wall clock several times; \<open>clk k\<close> is its \<open>k\<close>-th reading
  (\<^verbatim>\<open>Date.now()\<close> or \<^verbatim>\<open>new Date()\<close>, in milliseconds). An asynchronous
  handler is split where it awaits the network: \<open>_begin\<close> runs up to the call,
  \<open>_resume\<close> runs from the settled call to the end. State setters are functions on
  the state, and \<open>run_setters\<close> lists the state after each of them.
\<close>

fun run_setters :: "('s \<Rightarrow> 's) list \<Rightarrow> 's \<Rightarrow> 's list" where
  "run_setters [] s = []"
| "run_setters (f # fs) s = f s # run_setters fs (f s)"

definition add_message :: "message_item \<Rightarrow> dashboard \<Rightarrow> dashboard" where
  "add_message m s = s\<lparr>messages := messages s @ [m]\<rparr>"

definition assistant_message :: "nat \<Rightarrow> json \<Rightarrow> nat \<Rightarrow> message_item" where
  "assistant_message t c d = \<lparr>msg_id = show_nat t, msg_role = Assistant, content = c, timestamp = d\<rparr>"

text \<open>\<^verbatim>\<open>v || d\<close> and the value of a truthy \<^verbatim>\<open>v\<close>.\<close>

definition or_else :: "json option \<Rightarrow> json \<Rightarrow> json" where
  "or_else v d = (case v of None \<Rightarrow> d | Some x \<Rightarrow> if truthy (Some x) then x else d)"

definition truthy_value :: "json option \<Rightarrow> json option" where
  "truthy_value v = (if truthy v then v else None)"

definition message_or :: "js_error \<Rightarrow> string \<Rightarrow> json" where
  "message_or error d = JStr (if err_message error \<noteq> [] then err_message error else d)"

subsection \<open>loadDocuments: the call it starts\<close>

definition loadDocuments_begin :: "dashboard \<Rightarrow> dashboard" where
  "loadDocuments_begin s = s\<lparr>net_log := net_log s @ [get_request (authToken s) ''GET'' ''/documents'']\<rparr>"

subsection \<open>sendMessageToBackend\<close>

definition sendMessageToBackend_begin :: "(nat \<Rightarrow> nat) \<Rightarrow> dashboard \<Rightarrow> dashboard \<times> bool" where
  "sendMessageToBackend_begin clk s =
     (if trim (inputValue s) = [] \<or> isProcessing s then (s, False)
      else
        (s\<lparr>messages := messages s @
              [\<lparr>msg_id = show_nat (clk 0), msg_role = User, content = JStr (inputValue s),
                timestamp = clk 1\<rparr>],
           inputValue := [],
           isProcessing := True,
           processingStage := ''Processing your question...'',
           net_log := net_log s @ [sendMessage_request (authToken s) (inputValue s) (temperature s)]\<rparr>,
         True))"

definition sendMessageToBackend_resume ::
  "(nat \<Rightarrow> nat) \<Rightarrow> js_error + json option \<Rightarrow> dashboard \<Rightarrow> dashboard"
where
  "sendMessageToBackend_resume clk settled s =
     (let after =
        (case settled of
           Inr data_response \<Rightarrow>
             add_message
               (assistant_message (clk 0 + 1)
                  (or_else data_response (JStr ''I couldn't process that request. Please try again.''))
                  (clk 1)) s
         | Inl error \<Rightarrow>
             add_message
               (assistant_message (clk 0 + 1)
                  (message_or error ''Error connecting to backend. Please try again.'') (clk 1)) s)
      in after\<lparr>isProcessing := False, processingStage := []\<rparr>)"

definition sendMessageToBackend ::
  "engine \<Rightarrow> (nat \<Rightarrow> nat) \<Rightarrow> (nat \<Rightarrow> nat) \<Rightarrow> fetch_outcome \<Rightarrow> dashboard \<Rightarrow> dashboard"
where
  "sendMessageToBackend eng clk clk' out s =
     (case sendMessageToBackend_begin clk s of
        (s1, False) \<Rightarrow> s1
      | (s1, True) \<Rightarrow> sendMessageToBackend_resume clk' (sendMessage eng out) s1)"

subsection \<open>handleFileUpload\<close>

text \<open>
  \<^verbatim>\<open>String(v)\<close> as a template literal computes it. An array joins its elements
  (\<^verbatim>\<open>null\<close> as the empty string); an object prints as \<^verbatim>\<open>[object Object]\<close>
  unless an own property hides \<^verbatim>\<open>toString\<close>, when the conversion throws.
\<close>

fun js_String :: "engine \<Rightarrow> json \<Rightarrow> js_error + string"
  and js_join :: "engine \<Rightarrow> json list \<Rightarrow> js_error + string"
where
  "js_String eng JNull = Inr ''null''"
| "js_String eng (JBool b) = Inr (if b then ''true'' else ''false'')"
| "js_String eng (JNum n) = Inr (numToString eng n)"
| "js_String eng (JStr s) = Inr s"
| "js_String eng (JArr xs) = js_join eng xs"
| "js_String eng (JObj kvs) =
     (if ''toString'' \<in> set (map fst kvs)
      then Inl \<lparr>err_class = TypeError, err_message = to_primitive_msg eng\<rparr>
      else Inr ''[object Object]'')"
| "js_join eng [] = Inr []"
| "js_join eng (x # xs) =
     (case (case x of JNull \<Rightarrow> Inr [] | _ \<Rightarrow> js_String eng x) of
        Inl e \<Rightarrow> Inl e
      | Inr t \<Rightarrow>
          if xs = [] then Inr t
          else (case js_join eng xs of Inl e \<Rightarrow> Inl e | Inr ts \<Rightarrow> Inr (t @ '','' @ ts)))"

definition template_String :: "engine \<Rightarrow> json option \<Rightarrow> js_error + string" where
  "template_String eng v = (case v of None \<Rightarrow> Inr ''undefined'' | Some x \<Rightarrow> js_String eng x)"

text \<open>
  \<^verbatim>\<open>result.status.includes("Error")\<close> on a truthy \<^verbatim>\<open>result.status\<close>: a string
  searches for the substring, an array for the element, and nothing else has a callable
  \<^verbatim>\<open>includes\<close>.
\<close>

definition status_includes_Error :: "engine \<Rightarrow> json \<Rightarrow> js_error + bool" where
  "status_includes_Error eng v =
     (case v of
        JStr t \<Rightarrow> Inr (includes_str t ''Error'')
      | JArr xs \<Rightarrow> Inr (JStr ''Error'' \<in> set xs)
      | _ \<Rightarrow> Inl \<lparr>err_class = TypeError, err_message = not_function_msg eng ''result.status.includes''\<rparr>)"

definition set_doc_status :: "string \<Rightarrow> doc_status \<Rightarrow> dashboard \<Rightarrow> dashboard" where
  "set_doc_status i st s =
     s\<lparr>documents := map (\<lambda>doc. if doc_id doc = i then doc\<lparr>doc_status := st\<rparr> else doc) (documents s)\<rparr>"

definition set_stage :: "string \<Rightarrow> dashboard \<Rightarrow> dashboard" where
  "set_stage t s = s\<lparr>processingStage := t\<rparr>"

definition handleFileUpload_begin ::
  "(nat \<Rightarrow> nat) \<Rightarrow> js_file list option \<Rightarrow> dashboard \<Rightarrow> dashboard \<times> js_file option"
where
  "handleFileUpload_begin clk files s =
     (case files of
        None \<Rightarrow> (s, None)
      | Some [] \<Rightarrow> (s, None)
      | Some (f # _) \<Rightarrow>
          if \<not> endsWith (toLowerCase (file_name f)) ''.pdf'' then
            (add_message (assistant_message (clk 0) (JStr ''Please upload a PDF file.'') (clk 1)) s,
             None)
          else if file_size f > 10 * 1024 * 1024 then
            (add_message
               (assistant_message (clk 0)
                  (JStr ''File size exceeds 10MB limit. Please upload a smaller file.'') (clk 1)) s,
             None)
          else
            (s\<lparr>isUploading := True,
               uploadProgress := 0,
               processingStage := ''Uploading document...'',
               net_log := net_log s @ [uploadFile_request (authToken s) f]\<rparr>,
             Some f))"

text \<open>The \<^verbatim>\<open>catch\<close> block, entered after \<open>k\<close> readings of the clock.\<close>

definition upload_catch :: "(nat \<Rightarrow> nat) \<Rightarrow> nat \<Rightarrow> js_error \<Rightarrow> (dashboard \<Rightarrow> dashboard) list" where
  "upload_catch clk k error =
     [\<lambda>s. s\<lparr>isUploading := False\<rparr>,
      set_stage [],
      add_message
        (assistant_message (clk k) (message_or error ''Error uploading file. Please try again.'')
           (clk (k + 1)))]"

text \<open>
  The setters called from the point where \<^verbatim>\<open>await uploadFile(...)\<close> has settled
  with \<open>settled\<close>, in program order (the timers between the stages only wait).
\<close>

definition upload_setters ::
  "engine \<Rightarrow> (nat \<Rightarrow> nat) \<Rightarrow> js_file \<Rightarrow> js_error + json \<Rightarrow> (dashboard \<Rightarrow> dashboard) list"
where
  "upload_setters eng clk f settled =
     (case settled of
        Inl error \<Rightarrow> upload_catch clk 0 error
      | Inr result \<Rightarrow>
          (let newDocument =
                 \<lparr>doc_id = show_nat (clk 0), doc_name = file_name f, doc_size = file_size f,
                  uploadDate = clk 1, doc_status = Processing\<rparr>;
               staged =
                 [\<lambda>s. s\<lparr>documents := documents s @ [newDocument]\<rparr>,
                  set_stage ''Extracting text from PDF...'',
                  set_stage ''Creating embeddings...'',
                  set_stage ''Building vector store...'',
                  \<lambda>s. s\<lparr>uploadProgress := 100\<rparr>,
                  \<lambda>s. s\<lparr>isUploading := False\<rparr>,
                  set_stage [],
                  set_doc_status (doc_id newDocument) Completed];
               respond = (\<lambda>c. add_message (assistant_message (clk 2) c (clk 3)))
           in case get_prop eng result ''error'' of
                Inl e \<Rightarrow> staged @ upload_catch clk 2 e
              | Inr err \<Rightarrow>
                  (case truthy_value err of
                     Some ev \<Rightarrow>
                       staged @ [set_doc_status (doc_id newDocument) Failed, respond ev,
                                 loadDocuments_begin]
                   | None \<Rightarrow>
                       (case get_prop eng result ''status'' of
                          Inl e \<Rightarrow> staged @ upload_catch clk 2 e
                        | Inr st \<Rightarrow>
                            (case (case truthy_value st of
                                     None \<Rightarrow> Inr None
                                   | Some sv \<Rightarrow>
                                       (case status_includes_Error eng sv of
                                          Inl e \<Rightarrow> Inl e
                                        | Inr b \<Rightarrow> Inr (if b then Some sv else None))) of
                               Inl e \<Rightarrow> staged @ upload_catch clk 2 e
                             | Inr (Some sv) \<Rightarrow>
                                 staged @ [set_doc_status (doc_id newDocument) Failed, respond sv,
                                           loadDocuments_begin]
                             | Inr None \<Rightarrow>
                                 (case get_prop eng result ''filename'' of
                                    Inl e \<Rightarrow> staged @ upload_catch clk 3 e
                                  | Inr fn \<Rightarrow>
                                      (case template_String eng fn of
                                         Inl e \<Rightarrow> staged @ upload_catch clk 3 e
                                       | Inr t \<Rightarrow>
                                           staged @
                                           [respond (JStr (''File '' @ t @
                                              '' uploaded and processed successfully! You can now ask questions about the document.'')),
                                            loadDocuments_begin])))))))"

definition handleFileUpload_resume ::
  "engine \<Rightarrow> (nat \<Rightarrow> nat) \<Rightarrow> js_file \<Rightarrow> js_error + json \<Rightarrow> dashboard \<Rightarrow> dashboard list"
where
  "handleFileUpload_resume eng clk f settled s = run_setters (upload_setters eng clk f settled) s"

text \<open>
  A whole run of the handler: the state when it returns or reaches the network call,
  then the state after each later setter.
\<close>

definition handleFileUpload ::
  "engine \<Rightarrow> (nat \<Rightarrow> nat) \<Rightarrow> (nat \<Rightarrow> nat) \<Rightarrow> js_file list option \<Rightarrow> fetch_outcome
     \<Rightarrow> dashboard \<Rightarrow> dashboard list"
where
  "handleFileUpload eng clk clk' files out s =
     (case handleFileUpload_begin clk files s of
        (s1, None) \<Rightarrow> [s1]
      | (s1, Some f) \<Rightarrow> s1 # handleFileUpload_resume eng clk' f (uploadFile out) s1)"



definition upload_blocks ::
  "engine \<Rightarrow> (nat \<Rightarrow> nat) \<Rightarrow> js_file \<Rightarrow> js_error + json \<Rightarrow> (dashboard \<Rightarrow> dashboard) list list"
where
  "upload_blocks eng clk f settled =
     (case settled of
        Inl error \<Rightarrow> [upload_setters eng clk f settled]
      | Inr result \<Rightarrow>
          (let xs = upload_setters eng clk f settled
           in [take 2 xs, take 1 (drop 2 xs), take 1 (drop 3 xs), drop 4 xs]))"


text \<open>
  The three buttons that open the file input: the sidebar's is disabled while
  \<^verbatim>\<open>isUploading\<close>; the two of the documents tab are not, and the second of them is
  shown only while the list is empty.
\<close>

datatype upload_button = SidebarUpload | DocumentsUpload | FirstDocumentUpload

definition button_shown :: "upload_button \<Rightarrow> dashboard \<Rightarrow> bool" where
  "button_shown b s =
     (case b of
        SidebarUpload \<Rightarrow> True
      | DocumentsUpload \<Rightarrow> activeTab s = DocumentsTab
      | FirstDocumentUpload \<Rightarrow> activeTab s = DocumentsTab \<and> documents s = [])"

definition button_disabled :: "upload_button \<Rightarrow> dashboard \<Rightarrow> bool" where
  "button_disabled b s = (case b of SidebarUpload \<Rightarrow> isUploading s | _ \<Rightarrow> False)"

definition choose_file ::
  "upload_button \<Rightarrow> (nat \<Rightarrow> nat) \<Rightarrow> js_file list option \<Rightarrow> dashboard \<Rightarrow> dashboard \<times> js_file option"
where
  "choose_file b clk files s =
     (if button_shown b s \<and> \<not> button_disabled b s then handleFileUpload_begin clk files s
      else (s, None))"

subsection \<open>handleDeleteDocument\<close>

definition handleDeleteDocument_begin :: "string \<Rightarrow> dashboard \<Rightarrow> dashboard" where
  "handleDeleteDocument_begin i s =
     s\<lparr>net_log := net_log s @ [get_request (authToken s) ''DELETE'' (''/documents/'' @ i)]\<rparr>"

definition handleDeleteDocument_resume ::
  "(nat \<Rightarrow> nat) \<Rightarrow> string \<Rightarrow> js_error + json \<Rightarrow> dashboard \<Rightarrow> dashboard"
where
  "handleDeleteDocument_resume clk i settled s =
     (case settled of
        Inr _ \<Rightarrow>
          add_message (assistant_message (clk 0) (JStr ''Document deleted successfully.'') (clk 1))
            (s\<lparr>documents := filter (\<lambda>doc. doc_id doc \<noteq> i) (documents s)\<rparr>)
      | Inl error \<Rightarrow>
          add_message
            (assistant_message (clk 0)
               (message_or error ''Error deleting document. Please try again.'') (clk 1)) s)"

definition handleDeleteDocument ::
  "(nat \<Rightarrow> nat) \<Rightarrow> string \<Rightarrow> fetch_outcome \<Rightarrow> dashboard \<Rightarrow> dashboard"
where
  "handleDeleteDocument clk i out s =
     handleDeleteDocument_resume clk i (deleteDocument out) (handleDeleteDocument_begin i s)"

subsection \<open>Settings: initial state, effects and inputs\<close>

text \<open>The initialisers of \<^verbatim>\<open>useState\<close>, reading \<^verbatim>\<open>localStorage.getItem\<close>.\<close>

definition initial_temperature :: "engine \<Rightarrow> (string \<times> string) list \<Rightarrow> real" where
  "initial_temperature eng ls =
     (case map_of ls ''pdf-chatbot-temperature'' of
        None \<Rightarrow> 1 / 10
      | Some saved \<Rightarrow> if saved = [] then 1 / 10 else parseFloat eng saved)"

definition initial_model :: "(string \<times> string) list \<Rightarrow> string" where
  "initial_model ls =
     (case map_of ls ''pdf-chatbot-model'' of
        None \<Rightarrow> ''Flan-T5 Small''
      | Some saved \<Rightarrow> if saved = [] then ''Flan-T5 Small'' else saved)"

definition initial_darkMode :: "(string \<times> string) list \<Rightarrow> bool" where
  "initial_darkMode ls = (map_of ls ''pdf-chatbot-darkMode'' = Some ''true'')"

definition Dashboard_initial ::
  "engine \<Rightarrow> string option \<Rightarrow> (string \<times> string) list \<Rightarrow> request list \<Rightarrow> dashboard"
where
  "Dashboard_initial eng tok ls reqs =
     \<lparr>messages = [], inputValue = [], isUploading = False, isProcessing = False,
      activeTab = ChatTab, documents = [],
      temperature = initial_temperature eng ls,
      model = initial_model ls,
      darkMode = initial_darkMode ls,
      uploadProgress = 0, processingStage = [],
      authToken = tok, localStorage = ls, net_log = reqs\<rparr>"

text \<open>The three effects that call \<^verbatim>\<open>localStorage.setItem\<close>.\<close>

definition save_temperature :: "engine \<Rightarrow> dashboard \<Rightarrow> dashboard" where
  "save_temperature eng s =
     s\<lparr>localStorage :=
         AList.update ''pdf-chatbot-temperature'' (numToString eng (temperature s)) (localStorage s)\<rparr>"

definition save_model :: "dashboard \<Rightarrow> dashboard" where
  "save_model s = s\<lparr>localStorage := AList.update ''pdf-chatbot-model'' (model s) (localStorage s)\<rparr>"

definition save_darkMode :: "dashboard \<Rightarrow> dashboard" where
  "save_darkMode s =
     s\<lparr>localStorage :=
         AList.update ''pdf-chatbot-darkMode'' (if darkMode s then ''true'' else ''false'')
           (localStorage s)\<rparr>"

text \<open>Mounting runs every effect once, in the order the component declares them.\<close>

definition Dashboard_mount ::
  "engine \<Rightarrow> string option \<Rightarrow> (string \<times> string) list \<Rightarrow> request list \<Rightarrow> dashboard"
where
  "Dashboard_mount eng tok ls reqs =
     loadDocuments_begin
       (save_darkMode (save_model (save_temperature eng (Dashboard_initial eng tok ls reqs))))"

text \<open>
  A state setter followed by its effect. An effect runs again only when the value it
  depends on has changed.
\<close>

definition setTemperature :: "engine \<Rightarrow> real \<Rightarrow> dashboard \<Rightarrow> dashboard" where
  "setTemperature eng v s = (if v = temperature s then s else save_temperature eng (s\<lparr>temperature := v\<rparr>))"

definition setModel :: "string \<Rightarrow> dashboard \<Rightarrow> dashboard" where
  "setModel v s = (if v = model s then s else save_model (s\<lparr>model := v\<rparr>))"

definition setDarkMode :: "bool \<Rightarrow> dashboard \<Rightarrow> dashboard" where
  "setDarkMode v s = (if v = darkMode s then s else save_darkMode (s\<lparr>darkMode := v\<rparr>))"

text \<open>
  The inputs of the settings tab. The model, the temperature and the dark-mode inputs
  have an \<^verbatim>\<open>onChange\<close> handler; the API key, chunk size, chunk overlap and max tokens
  inputs have none (the last three only carry a \<^verbatim>\<open>defaultValue\<close>), so typing into
  them reaches neither the component's state nor the storage.
\<close>

datatype settings_input =
    ModelSelect string
  | TemperatureRange string
  | DarkModeCheckbox bool
  | ApiKeyInput string
  | ChunkSizeInput string
  | ChunkOverlapInput string
  | MaxTokensInput string

definition settings_change :: "engine \<Rightarrow> settings_input \<Rightarrow> dashboard \<Rightarrow> dashboard" where
  "settings_change eng ev s =
     (case ev of
        ModelSelect v \<Rightarrow> setModel v s
      | TemperatureRange v \<Rightarrow> setTemperature eng (parseFloat eng v) s
      | DarkModeCheckbox b \<Rightarrow> setDarkMode b s
      | ApiKeyInput _ \<Rightarrow> s
      | ChunkSizeInput _ \<Rightarrow> s
      | ChunkOverlapInput _ \<Rightarrow> s
      | MaxTokensInput _ \<Rightarrow> s)"

text \<open>The configuration a fresh start reads back from a storage.\<close>

definition persisted_config :: "engine \<Rightarrow> (string \<times> string) list \<Rightarrow> real \<times> string \<times> bool" where
  "persisted_config eng ls = (initial_temperature eng ls, initial_model ls, initial_darkMode ls)"

section \<open>The Chat component\<close>

record chat_message =
  c_role :: role
  c_content :: json

record chat =
  c_messages :: "chat_message list"
  c_inputValue :: string
  c_isUploading :: bool
  c_isProcessing :: bool
  c_authToken :: "string option"
  c_net_log :: "request list"

definition chat_add :: "json \<Rightarrow> chat \<Rightarrow> chat" where
  "chat_add c s = s\<lparr>c_messages := c_messages s @ [\<lparr>c_role = Assistant, c_content = c\<rparr>]\<rparr>"

definition chat_sendMessageToBackend_begin :: "chat \<Rightarrow> chat \<times> bool" where
  "chat_sendMessageToBackend_begin s =
     (if trim (c_inputValue s) = [] \<or> c_isProcessing s then (s, False)
      else
        (s\<lparr>c_messages := c_messages s @ [\<lparr>c_role = User, c_content = JStr (c_inputValue s)\<rparr>],
           c_inputValue := [],
           c_isProcessing := True,
           c_net_log := c_net_log s @ [sendMessage_request (c_authToken s) (c_inputValue s) (1 / 10)]\<rparr>,
         True))"

definition chat_sendMessageToBackend_resume :: "js_error + json option \<Rightarrow> chat \<Rightarrow> chat" where
  "chat_sendMessageToBackend_resume settled s =
     (let after =
        (case settled of
           Inr data_response \<Rightarrow>
             chat_add (or_else data_response (JStr ''I couldn't process that request. Please try again.'')) s
         | Inl error \<Rightarrow> chat_add (JStr ''Error connecting to backend. Please try again.'') s)
      in after\<lparr>c_isProcessing := False\<rparr>)"

definition chat_sendMessageToBackend :: "engine \<Rightarrow> fetch_outcome \<Rightarrow> chat \<Rightarrow> chat" where
  "chat_sendMessageToBackend eng out s =
     (case chat_sendMessageToBackend_begin s of
        (s1, False) \<Rightarrow> s1
      | (s1, True) \<Rightarrow> chat_sendMessageToBackend_resume (sendMessage eng out) s1)"

definition chat_handleFileUpload_begin :: "js_file list option \<Rightarrow> chat \<Rightarrow> chat \<times> js_file option" where
  "chat_handleFileUpload_begin files s =
     (case files of
        None \<Rightarrow> (s, None)
      | Some [] \<Rightarrow> (s, None)
      | Some (f # _) \<Rightarrow>
          if \<not> endsWith (toLowerCase (file_name f)) ''.pdf'' then
            (chat_add (JStr ''Please upload a PDF file.'') s, None)
          else if file_size f > 10 * 1024 * 1024 then
            (chat_add (JStr ''File size exceeds 10MB limit. Please upload a smaller file.'') s, None)
          else
            (s\<lparr>c_isUploading := True,
               c_net_log := c_net_log s @ [uploadFile_request (c_authToken s) f]\<rparr>,
             Some f))"

definition chat_upload_catch :: "(chat \<Rightarrow> chat) list" where
  "chat_upload_catch =
     [\<lambda>s. s\<lparr>c_isUploading := False\<rparr>, chat_add (JStr ''Error uploading file. Please try again.'')]"

definition chat_upload_setters :: "engine \<Rightarrow> js_error + json \<Rightarrow> (chat \<Rightarrow> chat) list" where
  "chat_upload_setters eng settled =
     (case settled of
        Inl error \<Rightarrow> chat_upload_catch
      | Inr result \<Rightarrow>
          (let done = [\<lambda>s. s\<lparr>c_isUploading := False\<rparr>]
           in case get_prop eng result ''error'' of
                Inl e \<Rightarrow> done @ chat_upload_catch
              | Inr err \<Rightarrow>
                  (case truthy_value err of
                     Some ev \<Rightarrow> done @ [chat_add ev]
                   | None \<Rightarrow>
                       (case get_prop eng result ''status'' of
                          Inl e \<Rightarrow> done @ chat_upload_catch
                        | Inr st \<Rightarrow>
                            (case (case truthy_value st of
                                     None \<Rightarrow> Inr None
                                   | Some sv \<Rightarrow>
                                       (case status_includes_Error eng sv of
                                          Inl e \<Rightarrow> Inl e
                                        | Inr b \<Rightarrow> Inr (if b then Some sv else None))) of
                               Inl e \<Rightarrow> done @ chat_upload_catch
                             | Inr (Some sv) \<Rightarrow> done @ [chat_add sv]
                             | Inr None \<Rightarrow>
                                 (case get_prop eng result ''filename'' of
                                    Inl e \<Rightarrow> done @ chat_upload_catch
                                  | Inr fn \<Rightarrow>
                                      (case template_String eng fn of
                                         Inl e \<Rightarrow> done @ chat_upload_catch
                                       | Inr t \<Rightarrow>
                                           done @
                                           [chat_add (JStr (''File '' @ t @
                                              '' uploaded and processed successfully! You can now ask questions about the document.''))])))))))"

definition chat_handleFileUpload ::
  "engine \<Rightarrow> js_file list option \<Rightarrow> fetch_outcome \<Rightarrow> chat \<Rightarrow> chat list"
where
  "chat_handleFileUpload eng files out s =
     (case chat_handleFileUpload_begin files s of
        (s1, None) \<Rightarrow> [s1]
      | (s1, Some f) \<Rightarrow> s1 # run_setters (chat_upload_setters eng (uploadFile out)) s1)"

section \<open>Failed calls and the synchronised store\<close>

text \<open>
  A call has failed when the transport failed, the status is outside 200..299, or the body
  of a 2xx response does not parse.
\<close>

definition request_failed :: "fetch_outcome \<Rightarrow> bool" where
  "request_failed out =
     (case out of Rejected _ \<Rightarrow> True | Resolved r \<Rightarrow> if ok r then isl (res_json r) else True)"

text \<open>
  The configuration a state holds, when the storage agrees with it, and when what the
  storage holds for it reads back as the same values: the string of the temperature parses
  back to the temperature, and the model is not the empty string (an empty entry reads as
  the default).
\<close>

definition config_of :: "dashboard \<Rightarrow> real \<times> string \<times> bool" where
  "config_of s = (temperature s, model s, darkMode s)"

definition storage_in_sync :: "engine \<Rightarrow> dashboard \<Rightarrow> bool" where
  "storage_in_sync eng s =
     (map_of (localStorage s) ''pdf-chatbot-temperature'' = Some (numToString eng (temperature s)) \<and>
      map_of (localStorage s) ''pdf-chatbot-model'' = Some (model s) \<and>
      map_of (localStorage s) ''pdf-chatbot-darkMode'' =
        Some (if darkMode s then ''true'' else ''false''))"

definition reads_back :: "engine \<Rightarrow> dashboard \<Rightarrow> bool" where
  "reads_back eng s =
     (numToString eng (temperature s) \<noteq> [] \<and>
      parseFloat eng (numToString eng (temperature s)) = temperature s \<and>
      model s \<noteq> [])"



section \<open>An engine for evaluating examples\<close>

text \<open>
  The conversions are tabulated on the values the examples below use; the message texts
  are those of V8.
\<close>

definition example_engine :: engine where
  "example_engine =
     \<lparr>numToString = (\<lambda>x. if x = 7 / 10 then ''0.7'' else if x = 1 / 10 then ''0.1'' else ''0''),
      parseFloat = (\<lambda>t. if t = ''0.7'' then 7 / 10 else if t = ''0.1'' then 1 / 10 else 0),
      btoa = (\<lambda>t. if t = ''admin:admin123'' then Inr ''YWRtaW46YWRtaW4xMjM='' else Inr []),
      null_read_msg = (\<lambda>p. ''Cannot read properties of null (reading '' @ [CHR 39] @ p @ [CHR 39] @ '')''),
      not_function_msg = (\<lambda>f. f @ '' is not a function''),
      to_primitive_msg = ''Cannot convert object to primitive value''\<rparr>"

definition example_clock :: "nat \<Rightarrow> nat" where
  "example_clock k = 1700000000000 + k"

definition example_dashboard :: dashboard where
  "example_dashboard = Dashboard_mount example_engine None [] []"

definition example_chat :: chat where
  "example_chat =
     \<lparr>c_messages = [], c_inputValue = [], c_isUploading = False, c_isProcessing = False,
      c_authToken = None, c_net_log = []\<rparr>"

definition example_ok :: "json \<Rightarrow> fetch_outcome" where
  "example_ok data = Resolved \<lparr>res_status = 200, res_statusText = ''OK'', res_json = Inr data\<rparr>"

definition example_401 :: fetch_outcome where
  "example_401 =
     Resolved \<lparr>res_status = 401, res_statusText = ''Unauthorized'',
               res_json = Inr (JObj [(''detail'', JStr ''Unauthorized'')])\<rparr>"

definition example_pdf :: js_file where
  "example_pdf = \<lparr>file_name = ''report.pdf'', file_size = 5 * 1024 * 1024\<rparr>"

definition example_document :: document where
  "example_document =
     \<lparr>doc_id = ''1699999999999'', doc_name = ''notes.pdf'', doc_size = 4096,
      uploadDate = 1699999999999, doc_status = Completed\<rparr>"



section \<open>Evaluation lemmas\<close>

lemma example_dashboard_eval:
  "example_dashboard =
     \<lparr>messages = [], inputValue = [], isUploading = False, isProcessing = False,
      activeTab = ChatTab, documents = [], temperature = 1 / 10, model = ''Flan-T5 Small'',
      darkMode = False, uploadProgress = 0, processingStage = [], authToken = None,
      localStorage =
        [(''pdf-chatbot-temperature'', ''0.1''), (''pdf-chatbot-model'', ''Flan-T5 Small''),
         (''pdf-chatbot-darkMode'', ''false'')],
      net_log =
        [\<lparr>req_url = ''/documents'', req_method = ''GET'', req_headers = [], req_body = NoBody\<rparr>]\<rparr>"
  by (simp add: example_dashboard_def Dashboard_mount_def Dashboard_initial_def
      loadDocuments_begin_def save_darkMode_def save_model_def save_temperature_def
      initial_temperature_def initial_model_def initial_darkMode_def example_engine_def
      get_request_def auth_header_def)

lemma show_example_times:
  "show_nat 1700000000000 = ''1700000000000''"
  "show_nat 1700000000001 = ''1700000000001''"
  "show_nat 1700000000002 = ''1700000000002''"
  "show_nat 1700000000003 = ''1700000000003''"
  by (simp_all add: show_nat.simps digit_char_def)

lemma trim_blank: "trim [CHR '' '', CHR 0x09, CHR '' ''] = []"
  by (simp add: trim_def is_space_def)

lemma trim_question: "trim ''What is the answer?'' = ''What is the answer?''"
  by (simp add: trim_def is_space_def)

lemma png_is_not_pdf: "\<not> endsWith (toLowerCase ''image.png'') ''.pdf''"
  by code_simp

lemma upper_case_pdf: "endsWith (toLowerCase ''Scan.PDF'') ''.pdf''"
  by code_simp

lemma report_is_pdf: "endsWith (toLowerCase ''report.pdf'') ''.pdf''"
  by code_simp

lemma sendMessage_401:
  "res_status r = 401 \<Longrightarrow>
   sendMessage eng (Resolved r) = Inr (Some (JStr ''Authentication required. Please login.''))"
  by (simp add: sendMessage_def sendMessage_try_def ok_def new_Error_def)

section \<open>The boundary of the request functions\<close>

lemma sendMessage_total: "\<exists>v. sendMessage eng out = Inr v"
  by (simp add: sendMessage_def split: sum.split)

lemma uploadFile_total: "\<exists>d. uploadFile out = Inr d"
  by (simp add: uploadFile_def split: sum.split)

lemma login_total: "\<exists>d. fst (login eng u p out tok) = Inr d"
  by (simp add: login_def split: sum.split prod.split)

lemma getStatus_total: "\<exists>d. getStatus out = Inr d"
  by (simp add: getStatus_def split: sum.split)

lemma listDocuments_rethrows: "listDocuments out = listDocuments_try out"
  by (simp add: listDocuments_def split: sum.split)

lemma deleteDocument_rethrows: "deleteDocument out = deleteDocument_try out"
  by (simp add: deleteDocument_def split: sum.split)

lemma listDocuments_rejects_iff: "(\<exists>e. listDocuments out = Inl e) = request_failed out"
  by (cases out)
     (auto simp add: listDocuments_rethrows listDocuments_try_def request_failed_def isl_def
        split: sum.splits)

lemma deleteDocument_rejects_iff: "(\<exists>e. deleteDocument out = Inl e) = request_failed out"
  by (cases out)
     (auto simp add: deleteDocument_rethrows deleteDocument_try_def request_failed_def isl_def
        split: sum.splits)

lemma sendMessage_catch_string:
  "sendMessage_try eng out = Inl e \<Longrightarrow> \<exists>t. sendMessage eng out = Inr (Some (JStr t))"
  by (simp add: sendMessage_def)

lemma uploadFile_catch_error:
  "uploadFile_try out = Inl e \<Longrightarrow>
   \<exists>t. t \<noteq> [] \<and> uploadFile out = Inr (JObj [(''error'', JStr t)])"
  by (simp add: uploadFile_def)

lemma sendMessage_try_failed: "request_failed out \<Longrightarrow> \<exists>e. sendMessage_try eng out = Inl e"
proof (cases out)
  case (Rejected e)
  then show ?thesis by (simp add: sendMessage_try_def)
next
  case (Resolved r)
  assume failed: "request_failed out"
  show ?thesis
  proof (cases "ok r")
    case True
    with failed Resolved obtain e where "res_json r = Inl e"
      by (auto simp add: request_failed_def isl_def)
    with True Resolved show ?thesis by (simp add: sendMessage_try_def)
  next
    case False
    with Resolved show ?thesis by (simp add: sendMessage_try_def)
  qed
qed

lemma uploadFile_try_failed: "request_failed out \<Longrightarrow> \<exists>e. uploadFile_try out = Inl e"
proof (cases out)
  case (Rejected e)
  then show ?thesis by (simp add: uploadFile_try_def)
next
  case (Resolved r)
  assume failed: "request_failed out"
  show ?thesis
  proof (cases "ok r")
    case True
    with failed Resolved obtain e where "res_json r = Inl e"
      by (auto simp add: request_failed_def isl_def)
    with True Resolved show ?thesis by (simp add: uploadFile_try_def)
  next
    case False
    with Resolved show ?thesis by (simp add: uploadFile_try_def)
  qed
qed

lemma sendMessage_failed_string:
  "request_failed out \<Longrightarrow> \<exists>t. sendMessage eng out = Inr (Some (JStr t))"
  using sendMessage_try_failed sendMessage_catch_string by blast

lemma uploadFile_failed_error:
  "request_failed out \<Longrightarrow> \<exists>t. t \<noteq> [] \<and> uploadFile out = Inr (JObj [(''error'', JStr t)])"
  using uploadFile_try_failed uploadFile_catch_error by blast

lemma uploadFile_body:
  "ok r \<Longrightarrow> res_json r = Inr data \<Longrightarrow> uploadFile (Resolved r) = Inr data"
  by (simp add: uploadFile_def uploadFile_try_def)

lemma sendMessage_body:
  "ok r \<Longrightarrow> res_json r = Inr data \<Longrightarrow> data \<noteq> JNull \<Longrightarrow>
   sendMessage eng (Resolved r) = get_prop eng data ''response''"
  by (cases data) (simp_all add: sendMessage_def sendMessage_try_def get_prop_def)

lemma sendMessage_null_body:
  "ok r \<Longrightarrow> res_json r = Inr JNull \<Longrightarrow> \<exists>t. sendMessage eng (Resolved r) = Inr (Some (JStr t))"
  by (simp add: sendMessage_def sendMessage_try_def get_prop_def)

text \<open>
  Claim C3, as stated, fails: \<^verbatim>\<open>listDocuments\<close> and \<^verbatim>\<open>deleteDocument\<close> log the
  error and throw it again, so on a 401 both reject.
\<close>

theorem gateway_rethrow_counterexample:
  "listDocuments example_401 =
     Inl \<lparr>err_class = PlainError, err_message = ''Authentication required. Please login.''\<rparr> \<and>
   deleteDocument example_401 =
     Inl \<lparr>err_class = PlainError, err_message = ''Authentication required. Please login.''\<rparr>"
  by (simp add: listDocuments_def listDocuments_try_def deleteDocument_def deleteDocument_try_def
      example_401_def ok_def new_Error_def)

text \<open>
  Claim C3, amended. \<^verbatim>\<open>sendMessage\<close>, \<^verbatim>\<open>uploadFile\<close>, \<^verbatim>\<open>login\<close> and
  \<^verbatim>\<open>getStatus\<close> never reject: whatever the transport does, each resolves to a value.
  \<^verbatim>\<open>listDocuments\<close> and \<^verbatim>\<open>deleteDocument\<close> pass on what their
  \<^verbatim>\<open>try\<close> block produced: they reject exactly when the call has failed (transport
  failure, status outside 200..299, or a body that does not parse) and resolve otherwise.
\<close>

theorem gateway_boundary:
  "(\<exists>v. sendMessage eng out = Inr v) \<and>
   (\<exists>d. uploadFile out = Inr d) \<and>
   (\<exists>d. fst (login eng u p out tok) = Inr d) \<and>
   (\<exists>d. getStatus out = Inr d) \<and>
   listDocuments out = listDocuments_try out \<and>
   deleteDocument out = deleteDocument_try out \<and>
   (\<exists>e. listDocuments out = Inl e) = request_failed out \<and>
   (\<exists>e. deleteDocument out = Inl e) = request_failed out"
  using sendMessage_total uploadFile_total login_total getStatus_total
    listDocuments_rethrows deleteDocument_rethrows listDocuments_rejects_iff
    deleteDocument_rejects_iff
  by simp

theorem gateway_boundary_witness:
  "request_failed example_401 \<and>
   (\<exists>e. deleteDocument example_401 = Inl e) \<and>
   (\<exists>v. sendMessage example_engine example_401 = Inr v)"
proof -
  have failed: "request_failed example_401"
    by (simp add: request_failed_def example_401_def ok_def)
  from gateway_boundary [of example_engine example_401 "''admin''" "''admin123''" None] failed
  show ?thesis by blast
qed

section \<open>Conversation: rejected sends and the unauthenticated reply\<close>

text \<open>
  Claim C5. A send whose input is empty or only white space once trimmed, or that arrives
  while a question is being answered (\<^verbatim>\<open>isProcessing\<close>), does nothing: the handler
  returns before it starts a call, and the whole state, with its timeline and the list of
  requests handed to the network, is what it was. This holds for the handler of the
  Dashboard and for that of the Chat component.
\<close>

theorem send_rejected_is_noop:
  "(trim (inputValue s) = [] \<or> isProcessing s \<longrightarrow>
      sendMessageToBackend_begin clk s = (s, False) \<and>
      sendMessageToBackend eng clk clk' out s = s) \<and>
   (trim (c_inputValue c) = [] \<or> c_isProcessing c \<longrightarrow>
      chat_sendMessageToBackend_begin c = (c, False) \<and>
      chat_sendMessageToBackend eng out c = c)"
  by (simp add: sendMessageToBackend_def sendMessageToBackend_begin_def
      chat_sendMessageToBackend_def chat_sendMessageToBackend_begin_def)

theorem send_rejected_is_noop_witness:
  "trim (inputValue (example_dashboard\<lparr>inputValue := [CHR '' '', CHR 0x09, CHR '' '']\<rparr>)) = [] \<and>
   sendMessageToBackend example_engine example_clock example_clock
     (example_ok (JObj [(''response'', JStr ''42'')]))
     (example_dashboard\<lparr>inputValue := [CHR '' '', CHR 0x09, CHR '' '']\<rparr>) =
     example_dashboard\<lparr>inputValue := [CHR '' '', CHR 0x09, CHR '' '']\<rparr> \<and>
   c_isProcessing (example_chat\<lparr>c_inputValue := ''again?'', c_isProcessing := True\<rparr>) \<and>
   chat_sendMessageToBackend example_engine
     (example_ok (JObj [(''response'', JStr ''42'')]))
     (example_chat\<lparr>c_inputValue := ''again?'', c_isProcessing := True\<rparr>) =
     example_chat\<lparr>c_inputValue := ''again?'', c_isProcessing := True\<rparr>"
  using send_rejected_is_noop
    [of "example_dashboard\<lparr>inputValue := [CHR '' '', CHR 0x09, CHR '' '']\<rparr>"
        example_clock example_engine example_clock
        "example_ok (JObj [(''response'', JStr ''42'')])"
        "example_chat\<lparr>c_inputValue := ''again?'', c_isProcessing := True\<rparr>"]
  by (simp add: trim_blank)

text \<open>
  Claim C6. When the call of a send is answered with status 401, the send appends the
  user's message and then one assistant message whose content is exactly
  ``Authentication required. Please login.'', and \<^verbatim>\<open>isProcessing\<close> is false when the
  handler has finished.
\<close>

theorem unauthenticated_reply:
  assumes "trim (inputValue s) \<noteq> []" and "\<not> isProcessing s" and "res_status r = 401"
  shows "messages (sendMessageToBackend eng clk clk' (Resolved r) s) =
           messages s @
           [\<lparr>msg_id = show_nat (clk 0), msg_role = User, content = JStr (inputValue s),
             timestamp = clk 1\<rparr>,
            \<lparr>msg_id = show_nat (clk' 0 + 1), msg_role = Assistant,
             content = JStr ''Authentication required. Please login.'', timestamp = clk' 1\<rparr>] \<and>
         \<not> isProcessing (sendMessageToBackend eng clk clk' (Resolved r) s)"
  using assms
  by (simp add: sendMessageToBackend_def sendMessageToBackend_begin_def
      sendMessageToBackend_resume_def sendMessage_401 add_message_def assistant_message_def
      or_else_def truthy_def)

theorem unauthenticated_reply_witness:
  "trim (inputValue (example_dashboard\<lparr>inputValue := ''What is the answer?''\<rparr>)) \<noteq> [] \<and>
   \<not> isProcessing (example_dashboard\<lparr>inputValue := ''What is the answer?''\<rparr>) \<and>
   messages
     (sendMessageToBackend example_engine example_clock example_clock
        (Resolved \<lparr>res_status = 401, res_statusText = ''Unauthorized'', res_json = Inr JNull\<rparr>)
        (example_dashboard\<lparr>inputValue := ''What is the answer?''\<rparr>)) =
     [\<lparr>msg_id = ''1700000000000'', msg_role = User, content = JStr ''What is the answer?'',
       timestamp = 1700000000001\<rparr>,
      \<lparr>msg_id = ''1700000000001'', msg_role = Assistant,
       content = JStr ''Authentication required. Please login.'', timestamp = 1700000000001\<rparr>] \<and>
   \<not> isProcessing
     (sendMessageToBackend example_engine example_clock example_clock
        (Resolved \<lparr>res_status = 401, res_statusText = ''Unauthorized'', res_json = Inr JNull\<rparr>)
        (example_dashboard\<lparr>inputValue := ''What is the answer?''\<rparr>))"
  using unauthenticated_reply
    [of "example_dashboard\<lparr>inputValue := ''What is the answer?''\<rparr>"
        "\<lparr>res_status = 401, res_statusText = ''Unauthorized'', res_json = Inr JNull\<rparr>"
        example_engine example_clock example_clock]
  by (simp add: trim_question example_dashboard_eval example_clock_def show_example_times)

section \<open>Uploads: the validation gate\<close>

lemma invalid_file_trace:
  assumes "\<not> endsWith (toLowerCase (file_name f)) ''.pdf'' \<or> file_size f > 10 * 1024 * 1024"
  shows "handleFileUpload eng clk clk' (Some (f # fs)) out s =
           [s\<lparr>messages := messages s @
                [\<lparr>msg_id = show_nat (clk 0), msg_role = Assistant,
                  content = JStr (if \<not> endsWith (toLowerCase (file_name f)) ''.pdf''
                                  then ''Please upload a PDF file.''
                                  else ''File size exceeds 10MB limit. Please upload a smaller file.''),
                  timestamp = clk 1\<rparr>]\<rparr>]"
  using assms
  by (auto simp add: handleFileUpload_def handleFileUpload_begin_def add_message_def
      assistant_message_def)

lemma chat_invalid_file_trace:
  assumes "\<not> endsWith (toLowerCase (file_name f)) ''.pdf'' \<or> file_size f > 10 * 1024 * 1024"
  shows "chat_handleFileUpload eng (Some (f # fs)) out c =
           [c\<lparr>c_messages := c_messages c @
                [\<lparr>c_role = Assistant,
                  c_content = JStr (if \<not> endsWith (toLowerCase (file_name f)) ''.pdf''
                                    then ''Please upload a PDF file.''
                                    else ''File size exceeds 10MB limit. Please upload a smaller file.'')\<rparr>]\<rparr>]"
  using assms
  by (auto simp add: chat_handleFileUpload_def chat_handleFileUpload_begin_def chat_add_def)

text \<open>
  Claim C7. When the name of the selected file does not end in \<^verbatim>\<open>.pdf\<close> (compared in
  lower case) or its size is above 10 MiB, the whole run of the upload handler is one
  step: it appends one assistant message that explains the rejection. Nothing else of the
  state changes, so no Document is created and no request is handed to the network (the
  request log is a field of the state). The check stands before the call in the handler,
  in the Dashboard and in the Chat component.
\<close>

theorem invalid_file_rejected:
  assumes "\<not> endsWith (toLowerCase (file_name f)) ''.pdf'' \<or> file_size f > 10 * 1024 * 1024"
  shows "handleFileUpload eng clk clk' (Some (f # fs)) out s =
           [s\<lparr>messages := messages s @
                [\<lparr>msg_id = show_nat (clk 0), msg_role = Assistant,
                  content = JStr (if \<not> endsWith (toLowerCase (file_name f)) ''.pdf''
                                  then ''Please upload a PDF file.''
                                  else ''File size exceeds 10MB limit. Please upload a smaller file.''),
                  timestamp = clk 1\<rparr>]\<rparr>] \<and>
         chat_handleFileUpload eng (Some (f # fs)) out c =
           [c\<lparr>c_messages := c_messages c @
                [\<lparr>c_role = Assistant,
                  c_content = JStr (if \<not> endsWith (toLowerCase (file_name f)) ''.pdf''
                                    then ''Please upload a PDF file.''
                                    else ''File size exceeds 10MB limit. Please upload a smaller file.'')\<rparr>]\<rparr>]"
  using invalid_file_trace [OF assms] chat_invalid_file_trace [OF assms] by simp

theorem invalid_file_rejected_witness:
  "\<not> endsWith (toLowerCase ''image.png'') ''.pdf'' \<and>
   handleFileUpload example_engine example_clock example_clock
     (Some [\<lparr>file_name = ''image.png'', file_size = 2048\<rparr>])
     (example_ok (JObj [(''filename'', JStr ''image.png'')])) example_dashboard =
     [example_dashboard
        \<lparr>messages :=
           [\<lparr>msg_id = ''1700000000000'', msg_role = Assistant,
             content = JStr ''Please upload a PDF file.'', timestamp = 1700000000001\<rparr>]\<rparr>] \<and>
   chat_handleFileUpload example_engine
     (Some [\<lparr>file_name = ''image.png'', file_size = 2048\<rparr>])
     (example_ok (JObj [(''filename'', JStr ''image.png'')])) example_chat =
     [example_chat
        \<lparr>c_messages := [\<lparr>c_role = Assistant, c_content = JStr ''Please upload a PDF file.''\<rparr>]\<rparr>] \<and>
   endsWith (toLowerCase ''Scan.PDF'') ''.pdf'' \<and>
   (11 * 1024 * 1024 :: nat) > 10 * 1024 * 1024 \<and>
   handleFileUpload example_engine example_clock example_clock
     (Some [\<lparr>file_name = ''Scan.PDF'', file_size = 11 * 1024 * 1024\<rparr>])
     (example_ok (JObj [(''filename'', JStr ''Scan.PDF'')])) example_dashboard =
     [example_dashboard
        \<lparr>messages :=
           [\<lparr>msg_id = ''1700000000000'', msg_role = Assistant,
             content = JStr ''File size exceeds 10MB limit. Please upload a smaller file.'',
             timestamp = 1700000000001\<rparr>]\<rparr>]"
  using invalid_file_rejected
    [of "\<lparr>file_name = ''image.png'', file_size = 2048\<rparr>" example_engine example_clock
        example_clock "[]" "example_ok (JObj [(''filename'', JStr ''image.png'')])"
        example_dashboard example_chat]
    invalid_file_rejected
    [of "\<lparr>file_name = ''Scan.PDF'', file_size = 11 * 1024 * 1024\<rparr>" example_engine
        example_clock example_clock "[]" "example_ok (JObj [(''filename'', JStr ''Scan.PDF'')])"
        example_dashboard example_chat]
  by (simp add: png_is_not_pdf upper_case_pdf example_dashboard_eval example_chat_def
      example_clock_def show_example_times)

section \<open>Uploads: the Document of an upload\<close>

lemma uploadFile_401:
  "uploadFile example_401 = Inr (JObj [(''error'', JStr ''Authentication required. Please login.'')])"
  by (simp add: uploadFile_def uploadFile_try_def example_401_def ok_def new_Error_def)

lemma begin_example_pdf:
  "handleFileUpload_begin example_clock (Some [example_pdf]) example_dashboard =
     (example_dashboard
        \<lparr>isUploading := True, uploadProgress := 0, processingStage := ''Uploading document...'',
         net_log := net_log example_dashboard @ [uploadFile_request None example_pdf]\<rparr>,
      Some example_pdf)"
  using report_is_pdf
  by (simp add: handleFileUpload_begin_def example_pdf_def example_dashboard_eval)

lemma setters_401:
  "upload_setters example_engine example_clock example_pdf
     (Inr (JObj [(''error'', JStr ''Authentication required. Please login.'')])) =
   [\<lambda>s. s\<lparr>documents := documents s @
        [\<lparr>doc_id = ''1700000000000'', doc_name = ''report.pdf'', doc_size = 5 * 1024 * 1024,
          uploadDate = 1700000000001, doc_status = Processing\<rparr>]\<rparr>,
    set_stage ''Extracting text from PDF...'',
    set_stage ''Creating embeddings...'',
    set_stage ''Building vector store...'',
    \<lambda>s. s\<lparr>uploadProgress := 100\<rparr>,
    \<lambda>s. s\<lparr>isUploading := False\<rparr>,
    set_stage [],
    set_doc_status ''1700000000000'' Completed,
    set_doc_status ''1700000000000'' Failed,
    add_message (assistant_message 1700000000002
       (JStr ''Authentication required. Please login.'') 1700000000003),
    loadDocuments_begin]"
  by (simp add: upload_setters_def get_prop_def truthy_value_def truthy_def example_clock_def
      show_example_times example_pdf_def Let_def)

lemma example_documents: "documents example_dashboard = []"
  by (simp add: example_dashboard_eval)

lemma last_run_setters: "last (s # run_setters fs s) = fold (\<lambda>f. f) fs s"
  by (induction fs arbitrary: s) simp_all

lemma doc_id_mark: "doc_id (if c then d\<lparr>doc_status := st\<rparr> else d) = doc_id d"
  by simp

lemma ids_set_doc_status:
  "map doc_id (documents (set_doc_status i st s)) = map doc_id (documents s)"
  by (simp add: set_doc_status_def o_def doc_id_mark)

lemma documents_other_setters:
  "documents (set_stage t s) = documents s"
  "documents (add_message m s) = documents s"
  "documents (loadDocuments_begin s) = documents s"
  by (simp_all add: set_stage_def add_message_def loadDocuments_begin_def)

lemma ids_upload_catch:
  "map doc_id (documents (fold (\<lambda>f. f) (upload_catch clk k e) s)) = map doc_id (documents s)"
  by (simp add: upload_catch_def documents_other_setters)

lemma ids_upload_setters:
  "map doc_id (documents (fold (\<lambda>f. f) (upload_setters eng clk f (Inr result)) s)) =
   map doc_id (documents s) @ [show_nat (clk 0)]"
  by (simp add: upload_setters_def Let_def ids_upload_catch ids_set_doc_status
      documents_other_setters split: sum.split option.split)


lemma valid_file_begin:
  assumes "endsWith (toLowerCase (file_name f)) ''.pdf''" and "file_size f \<le> 10 * 1024 * 1024"
  shows "handleFileUpload_begin clk (Some (f # fs)) s =
           (s\<lparr>isUploading := True, uploadProgress := 0,
              processingStage := ''Uploading document...'',
              net_log := net_log s @ [uploadFile_request (authToken s) f]\<rparr>,
            Some f)"
  using assms by (simp add: handleFileUpload_begin_def)

lemma valid_file_last:
  assumes "endsWith (toLowerCase (file_name f)) ''.pdf''" and "file_size f \<le> 10 * 1024 * 1024"
  shows "last (handleFileUpload eng clk clk' (Some (f # fs)) out s) =
           fold (\<lambda>g. g) (upload_setters eng clk' f (uploadFile out))
             (s\<lparr>isUploading := True, uploadProgress := 0,
                processingStage := ''Uploading document...'',
                net_log := net_log s @ [uploadFile_request (authToken s) f]\<rparr>)"
  by (simp only: handleFileUpload_def valid_file_begin [OF assms] prod.case option.case
      handleFileUpload_resume_def last_run_setters)

lemma mark_twice:
  "map (\<lambda>doc. if doc_id doc = i then doc\<lparr>doc_status := b\<rparr> else doc)
     (map (\<lambda>doc. if doc_id doc = i then doc\<lparr>doc_status := a\<rparr> else doc) xs) =
   map (\<lambda>doc. if doc_id doc = i then doc\<lparr>doc_status := b\<rparr> else doc) xs"
  by (induction xs) auto

lemma documents_error_result:
  assumes "t \<noteq> []"
  shows "documents (fold (\<lambda>g. g)
           (upload_setters eng clk f (Inr (JObj [(''error'', JStr t)]))) s) =
         map (\<lambda>doc. if doc_id doc = show_nat (clk 0) then doc\<lparr>doc_status := Failed\<rparr> else doc)
           (documents s @
            [\<lparr>doc_id = show_nat (clk 0), doc_name = file_name f, doc_size = file_size f,
              uploadDate = clk 1, doc_status = Processing\<rparr>])"
  using assms
  by (simp add: upload_setters_def Let_def get_prop_def truthy_value_def truthy_def
      set_doc_status_def set_stage_def add_message_def loadDocuments_begin_def mark_twice)

lemma example_pdf_valid:
  "endsWith (toLowerCase (file_name example_pdf)) ''.pdf'' \<and>
   file_size example_pdf \<le> 10 * 1024 * 1024"
  using report_is_pdf by (simp add: example_pdf_def)

lemma example_401_failed: "request_failed example_401"
  by (simp add: request_failed_def example_401_def ok_def)

text \<open>
  Claim C2, as stated, fails: \<^verbatim>\<open>uploadFile\<close> turns every failure into a result, and
  the handler adds the Document before it looks at the result. After a 401 the collection
  holds a new entry, marked failed.
\<close>

theorem failed_upload_creates_document_counterexample:
  "documents
     (last (handleFileUpload example_engine example_clock example_clock (Some [example_pdf])
        example_401 example_dashboard)) =
   [\<lparr>doc_id = ''1700000000000'', doc_name = ''report.pdf'', doc_size = 5242880,
     uploadDate = 1700000000001, doc_status = Failed\<rparr>]"
  by (simp add: handleFileUpload_def begin_example_pdf uploadFile_401 handleFileUpload_resume_def
      setters_401 set_stage_def set_doc_status_def add_message_def loadDocuments_begin_def
      example_documents)

text \<open>
  Claim C2, amended. A Document is created whenever the selected file passes the
  client-side validation, once the upload call has settled and whatever its outcome: at
  the end of the handler the collection has one more entry, whose id is the reading of the
  clock. When the call has failed (transport failure, status outside 200..299 or a body
  that does not parse) the entry ends as failed. A selection that fails the validation
  never becomes a Document: the collection is unchanged.
\<close>

theorem document_created_when_upload_settles:
  "(endsWith (toLowerCase (file_name f)) ''.pdf'' \<and> file_size f \<le> 10 * 1024 * 1024 \<longrightarrow>
      map doc_id (documents (last (handleFileUpload eng clk clk' (Some (f # fs)) out s))) =
        map doc_id (documents s) @ [show_nat (clk' 0)] \<and>
      (request_failed out \<longrightarrow>
         documents (last (handleFileUpload eng clk clk' (Some (f # fs)) out s)) =
           map (\<lambda>doc. if doc_id doc = show_nat (clk' 0) then doc\<lparr>doc_status := Failed\<rparr> else doc)
             (documents s @
              [\<lparr>doc_id = show_nat (clk' 0), doc_name = file_name f, doc_size = file_size f,
                uploadDate = clk' 1, doc_status = Processing\<rparr>]))) \<and>
   (\<not> endsWith (toLowerCase (file_name f)) ''.pdf'' \<or> file_size f > 10 * 1024 * 1024 \<longrightarrow>
      documents (last (handleFileUpload eng clk clk' (Some (f # fs)) out s)) = documents s)"
proof (intro conjI impI)
  assume valid: "endsWith (toLowerCase (file_name f)) ''.pdf'' \<and> file_size f \<le> 10 * 1024 * 1024"
  obtain d where d: "uploadFile out = Inr d"
    using uploadFile_total by blast
  show "map doc_id (documents (last (handleFileUpload eng clk clk' (Some (f # fs)) out s))) =
        map doc_id (documents s) @ [show_nat (clk' 0)]"
    using valid by (simp add: valid_file_last d ids_upload_setters)
next
  assume valid: "endsWith (toLowerCase (file_name f)) ''.pdf'' \<and> file_size f \<le> 10 * 1024 * 1024"
    and failed: "request_failed out"
  obtain t where t: "t \<noteq> []" "uploadFile out = Inr (JObj [(''error'', JStr t)])"
    using uploadFile_failed_error [OF failed] by blast
  show "documents (last (handleFileUpload eng clk clk' (Some (f # fs)) out s)) =
          map (\<lambda>doc. if doc_id doc = show_nat (clk' 0) then doc\<lparr>doc_status := Failed\<rparr> else doc)
            (documents s @
             [\<lparr>doc_id = show_nat (clk' 0), doc_name = file_name f, doc_size = file_size f,
               uploadDate = clk' 1, doc_status = Processing\<rparr>])"
    using valid t by (simp add: valid_file_last documents_error_result)
next
  assume "\<not> endsWith (toLowerCase (file_name f)) ''.pdf'' \<or> file_size f > 10 * 1024 * 1024"
  then show "documents (last (handleFileUpload eng clk clk' (Some (f # fs)) out s)) = documents s"
    by (simp add: invalid_file_trace)
qed

theorem document_created_when_upload_settles_witness:
  "endsWith (toLowerCase (file_name example_pdf)) ''.pdf'' \<and>
   file_size example_pdf \<le> 10 * 1024 * 1024 \<and>
   request_failed example_401 \<and>
   documents
     (last (handleFileUpload example_engine example_clock example_clock (Some [example_pdf])
        example_401 example_dashboard)) =
   [\<lparr>doc_id = ''1700000000000'', doc_name = ''report.pdf'', doc_size = 5242880,
     uploadDate = 1700000000001, doc_status = Failed\<rparr>]"
  using document_created_when_upload_settles
    [of example_pdf example_engine example_clock example_clock "[]" example_401 example_dashboard]
    example_pdf_valid example_401_failed
  by (simp add: example_documents example_clock_def show_example_times example_pdf_def)

text \<open>
  Claim C4: while \<^verbatim>\<open>isUploading\<close> is true no further upload call is issued. The
  handler has no such guard; only the button of the sidebar is disabled while an upload is
  in flight. With an upload of \<^verbatim>\<open>report.pdf\<close> in flight the sidebar button does
  nothing, but the button of the documents tab starts a second upload: the request log
  then holds two calls of \<^verbatim>\<open>/upload\<close>, neither of them settled.
\<close>

theorem second_upload_while_uploading:
  "isUploading
     (fst (handleFileUpload_begin example_clock (Some [example_pdf])
        (example_dashboard\<lparr>activeTab := DocumentsTab\<rparr>))) \<and>
   choose_file SidebarUpload example_clock
     (Some [\<lparr>file_name = ''other.pdf'', file_size = 1024\<rparr>])
     (fst (handleFileUpload_begin example_clock (Some [example_pdf])
        (example_dashboard\<lparr>activeTab := DocumentsTab\<rparr>))) =
     (fst (handleFileUpload_begin example_clock (Some [example_pdf])
        (example_dashboard\<lparr>activeTab := DocumentsTab\<rparr>)), None) \<and>
   map req_url
     (net_log
        (fst (choose_file DocumentsUpload example_clock
           (Some [\<lparr>file_name = ''other.pdf'', file_size = 1024\<rparr>])
           (fst (handleFileUpload_begin example_clock (Some [example_pdf])
              (example_dashboard\<lparr>activeTab := DocumentsTab\<rparr>)))))) =
     [''/documents'', ''/upload'', ''/upload'']"
proof -
  have other: "endsWith (toLowerCase ''other.pdf'') ''.pdf''"
    by code_simp
  show ?thesis
    using other report_is_pdf
    by (simp add: handleFileUpload_begin_def choose_file_def button_shown_def button_disabled_def
        example_pdf_def example_dashboard_eval uploadFile_request_def)
qed

section \<open>Uploads: the status of a Document as it is rendered\<close>

lemma split_in_four:
  "take 2 xs @ take 1 (drop 2 xs) @ take 1 (drop 3 xs) @ drop 4 xs = xs"
proof -
  have "take 2 xs @ take 1 (drop 2 xs) = take 3 xs"
    using take_add [of 2 1 xs] by simp
  moreover have "take 3 xs @ take 1 (drop 3 xs) = take 4 xs"
    using take_add [of 3 1 xs] by simp
  ultimately have "take 2 xs @ take 1 (drop 2 xs) @ take 1 (drop 3 xs) @ drop 4 xs =
      take 4 xs @ drop 4 xs"
    by (metis append.assoc)
  then show ?thesis by simp
qed

lemma blocks_concat: "concat (upload_blocks eng clk f settled) = upload_setters eng clk f settled"
proof (cases settled)
  case (Inl e)
  then show ?thesis by (simp add: upload_blocks_def)
next
  case (Inr result)
  then show ?thesis
    using split_in_four [of "upload_setters eng clk f (Inr result)"]
    by (simp add: upload_blocks_def Let_def)
qed














section \<open>Deleting a Document\<close>

lemma example_documents_deleted_ok:
  "\<not> request_failed (example_ok (JObj [(''status'', JStr ''deleted'')]))"
  by (simp add: request_failed_def example_ok_def ok_def)

text \<open>
  Claim C8, as stated, fails where it says that a successful call removes exactly one
  entry: for an id that is not in the local collection the call succeeds and nothing is
  removed.
\<close>

theorem delete_absent_id_counterexample:
  "\<not> request_failed (example_ok (JObj [(''status'', JStr ''deleted'')])) \<and>
   documents
     (handleDeleteDocument example_clock ''1600000000000''
        (example_ok (JObj [(''status'', JStr ''deleted'')]))
        (example_dashboard\<lparr>documents := [example_document]\<rparr>)) = [example_document]"
  by (simp add: request_failed_def handleDeleteDocument_def
      handleDeleteDocument_resume_def handleDeleteDocument_begin_def deleteDocument_def
      deleteDocument_try_def example_ok_def ok_def add_message_def example_document_def)

text \<open>
  Claim C8, amended. Deleting calls the gateway first: up to the call the collection is
  unchanged and the \<^verbatim>\<open>DELETE\<close> request is the one added to the log. When the call
  fails the collection stays as it is, whether the id is in it or not. When the call
  succeeds every entry with that id is removed and the others are kept in their order, so
  the collection shrinks by the number of entries that carry the id: by one when the id
  occurs once, by none when it does not occur.
\<close>

theorem delete_after_confirmation:
  "documents (handleDeleteDocument_begin i s) = documents s \<and>
   net_log (handleDeleteDocument_begin i s) =
     net_log s @ [get_request (authToken s) ''DELETE'' (''/documents/'' @ i)] \<and>
   (request_failed out \<longrightarrow> documents (handleDeleteDocument clk i out s) = documents s) \<and>
   (\<not> request_failed out \<longrightarrow>
      documents (handleDeleteDocument clk i out s) =
        filter (\<lambda>doc. doc_id doc \<noteq> i) (documents s) \<and>
      length (documents (handleDeleteDocument clk i out s)) +
        length (filter (\<lambda>doc. doc_id doc = i) (documents s)) = length (documents s))"
proof (intro conjI impI)
  show "documents (handleDeleteDocument_begin i s) = documents s"
    by (simp add: handleDeleteDocument_begin_def)
  show "net_log (handleDeleteDocument_begin i s) =
          net_log s @ [get_request (authToken s) ''DELETE'' (''/documents/'' @ i)]"
    by (simp add: handleDeleteDocument_begin_def)
next
  assume "request_failed out"
  then obtain e where "deleteDocument out = Inl e"
    using deleteDocument_rejects_iff by blast
  then show "documents (handleDeleteDocument clk i out s) = documents s"
    by (simp add: handleDeleteDocument_def handleDeleteDocument_resume_def
        handleDeleteDocument_begin_def add_message_def)
next
  assume ok: "\<not> request_failed out"
  then obtain d where d: "deleteDocument out = Inr d"
    using deleteDocument_rejects_iff [of out] by (cases "deleteDocument out") auto
  then show kept: "documents (handleDeleteDocument clk i out s) =
      filter (\<lambda>doc. doc_id doc \<noteq> i) (documents s)"
    by (simp add: handleDeleteDocument_def handleDeleteDocument_resume_def
        handleDeleteDocument_begin_def add_message_def)
  show "length (documents (handleDeleteDocument clk i out s)) +
        length (filter (\<lambda>doc. doc_id doc = i) (documents s)) = length (documents s)"
    using sum_length_filter_compl [of "\<lambda>doc. doc_id doc = i" "documents s"]
    by (simp add: kept)
qed

theorem delete_after_confirmation_witness:
  "request_failed example_401 \<and>
   documents
     (handleDeleteDocument example_clock ''1699999999999'' example_401
        (example_dashboard\<lparr>documents := [example_document]\<rparr>)) = [example_document] \<and>
   \<not> request_failed (example_ok (JObj [(''status'', JStr ''deleted'')])) \<and>
   documents
     (handleDeleteDocument example_clock ''1699999999999''
        (example_ok (JObj [(''status'', JStr ''deleted'')]))
        (example_dashboard\<lparr>documents := [example_document]\<rparr>)) = []"
  using delete_after_confirmation
    [of "''1699999999999''" "example_dashboard\<lparr>documents := [example_document]\<rparr>"
        example_401 example_clock]
    delete_after_confirmation
    [of "''1699999999999''" "example_dashboard\<lparr>documents := [example_document]\<rparr>"
        "example_ok (JObj [(''status'', JStr ''deleted'')])" example_clock]
    example_401_failed example_documents_deleted_ok
  by (simp add: example_document_def)

section \<open>Settings and the persisted store\<close>

lemma mount_in_sync: "storage_in_sync eng (Dashboard_mount eng tok ls reqs)"
  by (simp add: storage_in_sync_def Dashboard_mount_def Dashboard_initial_def
      loadDocuments_begin_def save_darkMode_def save_model_def save_temperature_def
      update_conv')

lemma change_keeps_sync:
  "storage_in_sync eng s \<Longrightarrow> storage_in_sync eng (settings_change eng ev s)"
  by (cases ev)
     (simp_all add: storage_in_sync_def settings_change_def setModel_def setTemperature_def
        setDarkMode_def save_darkMode_def save_model_def save_temperature_def update_conv')

lemma sync_reads_back:
  "storage_in_sync eng s \<Longrightarrow> reads_back eng s \<Longrightarrow>
   persisted_config eng (localStorage s) = config_of s"
  by (auto simp add: storage_in_sync_def reads_back_def persisted_config_def config_of_def
      initial_temperature_def initial_model_def initial_darkMode_def)

lemma change_config:
  "config_of (settings_change eng (TemperatureRange txt) s) = (parseFloat eng txt, model s, darkMode s)"
  "config_of (settings_change eng (ModelSelect m) s) = (temperature s, m, darkMode s)"
  "config_of (settings_change eng (DarkModeCheckbox b) s) = (temperature s, model s, b)"
  by (simp_all add: config_of_def settings_change_def setModel_def setTemperature_def
      setDarkMode_def save_darkMode_def save_model_def save_temperature_def)

lemma defaults_when_absent:
  "map_of ls ''pdf-chatbot-temperature'' = None \<Longrightarrow> map_of ls ''pdf-chatbot-model'' = None \<Longrightarrow>
   map_of ls ''pdf-chatbot-darkMode'' = None \<Longrightarrow>
   persisted_config eng ls = (1 / 10, ''Flan-T5 Small'', False)"
  by (simp add: persisted_config_def initial_temperature_def initial_model_def
      initial_darkMode_def)

lemma example_in_sync: "storage_in_sync example_engine example_dashboard"
  by (simp add: example_dashboard_def mount_in_sync)

text \<open>
  Claim C9, as stated, fails for the chunk size, the chunk overlap and the max tokens:
  their inputs have no change handler, so a new chunk size reaches neither the state nor
  the store, which still holds the three other entries only.
\<close>

theorem chunk_size_not_persisted_counterexample:
  "localStorage (settings_change example_engine (ChunkSizeInput ''500'') example_dashboard) =
     [(''pdf-chatbot-temperature'', ''0.1''), (''pdf-chatbot-model'', ''Flan-T5 Small''),
      (''pdf-chatbot-darkMode'', ''false'')]"
  by (simp add: settings_change_def example_dashboard_eval)

text \<open>
  Claim C9, amended. The persisted fields are the temperature, the model and the dark
  mode. The store agrees with the state once the component is mounted and after every
  input of the settings tab. So after any such input, a fresh load from the store yields
  the configuration of the state, provided the string of the temperature parses back to
  the temperature and the model is not empty; an input of one of the three fields changes
  that field and leaves the two others at their prior values. With none of the three
  entries in the store, the load yields temperature 0.1, model ``Flan-T5 Small'' and dark
  mode off. Inputs of chunk size, chunk overlap and max tokens change nothing.
\<close>

theorem settings_round_trip:
  "storage_in_sync eng (Dashboard_mount eng tok ls reqs) \<and>
   (storage_in_sync eng s \<longrightarrow> storage_in_sync eng (settings_change eng ev s)) \<and>
   (storage_in_sync eng s \<and> reads_back eng (settings_change eng ev s) \<longrightarrow>
      persisted_config eng (localStorage (settings_change eng ev s)) =
        config_of (settings_change eng ev s)) \<and>
   config_of (settings_change eng (TemperatureRange txt) s) =
     (parseFloat eng txt, model s, darkMode s) \<and>
   config_of (settings_change eng (ModelSelect m) s) = (temperature s, m, darkMode s) \<and>
   config_of (settings_change eng (DarkModeCheckbox b) s) = (temperature s, model s, b) \<and>
   (map_of ls ''pdf-chatbot-temperature'' = None \<and> map_of ls ''pdf-chatbot-model'' = None \<and>
    map_of ls ''pdf-chatbot-darkMode'' = None \<longrightarrow>
      persisted_config eng ls = (1 / 10, ''Flan-T5 Small'', False)) \<and>
   settings_change eng (ChunkSizeInput t) s = s \<and>
   settings_change eng (ChunkOverlapInput t) s = s \<and>
   settings_change eng (MaxTokensInput t) s = s"
  using mount_in_sync [of eng tok ls reqs] change_keeps_sync [of eng s ev]
    sync_reads_back [of eng "settings_change eng ev s"] change_config [of eng _ s]
    defaults_when_absent [of ls eng]
  by (simp add: settings_change_def)

theorem settings_round_trip_witness:
  "storage_in_sync example_engine example_dashboard \<and>
   reads_back example_engine (settings_change example_engine (TemperatureRange ''0.7'') example_dashboard) \<and>
   persisted_config example_engine
     (localStorage (settings_change example_engine (TemperatureRange ''0.7'') example_dashboard)) =
     (7 / 10, ''Flan-T5 Small'', False) \<and>
   map_of ([] :: (string \<times> string) list) ''pdf-chatbot-temperature'' = None \<and>
   persisted_config example_engine [] = (1 / 10, ''Flan-T5 Small'', False)"
proof -
  have rb: "reads_back example_engine
      (settings_change example_engine (TemperatureRange ''0.7'') example_dashboard)"
    by (simp add: reads_back_def settings_change_def setTemperature_def save_temperature_def
        example_dashboard_eval example_engine_def)
  have m: "model example_dashboard = ''Flan-T5 Small''" "darkMode example_dashboard = False"
    by (simp_all add: example_dashboard_eval)
  have p: "parseFloat example_engine ''0.7'' = 7 / 10"
    by (simp add: example_engine_def)
  from settings_round_trip
    [of example_engine None "[]" "[]" example_dashboard "TemperatureRange ''0.7''" "''0.7''"]
    example_in_sync rb m p
  show ?thesis by simp
qed

section \<open>What sendMessage and uploadFile resolve to\<close>

lemma uploadFile_null_body: "uploadFile (example_ok JNull) = Inr JNull"
  by (simp add: uploadFile_def uploadFile_try_def example_ok_def ok_def)

lemma setters_null_body:
  "upload_setters example_engine example_clock example_pdf (Inr JNull) =
   [\<lambda>s. s\<lparr>documents := documents s @
        [\<lparr>doc_id = ''1700000000000'', doc_name = ''report.pdf'', doc_size = 5 * 1024 * 1024,
          uploadDate = 1700000000001, doc_status = Processing\<rparr>]\<rparr>,
    set_stage ''Extracting text from PDF...'',
    set_stage ''Creating embeddings...'',
    set_stage ''Building vector store...'',
    \<lambda>s. s\<lparr>uploadProgress := 100\<rparr>,
    \<lambda>s. s\<lparr>isUploading := False\<rparr>,
    set_stage [],
    set_doc_status ''1700000000000'' Completed] @
   upload_catch example_clock 2
     \<lparr>err_class = TypeError,
      err_message = ''Cannot read properties of null (reading '' @ [CHR 39] @ ''error'' @ [CHR 39] @ '')''\<rparr>"
  by (simp add: upload_setters_def get_prop_def example_clock_def show_example_times
      example_pdf_def Let_def example_engine_def)

text \<open>
  Claim C10, as stated, fails on 2xx outcomes. \<^verbatim>\<open>sendMessage\<close> hands on the
  \<^verbatim>\<open>response\<close> property of the body as it is: it is undefined when the body has
  none, and a number when the body holds one. And the \<^verbatim>\<open>catch\<close> branch of the upload
  handler is reached although \<^verbatim>\<open>uploadFile\<close> has resolved: a body \<^verbatim>\<open>null\<close> makes
  the read of \<^verbatim>\<open>result.error\<close> throw, and the message of that error is what the
  handler appends.
\<close>

theorem response_not_string_counterexample:
  "sendMessage example_engine (example_ok (JObj [(''answer'', JStr ''42'')])) = Inr None \<and>
   sendMessage example_engine (example_ok (JObj [(''response'', JNum 42)])) = Inr (Some (JNum 42)) \<and>
   map content
     (messages
        (last (handleFileUpload example_engine example_clock example_clock (Some [example_pdf])
           (example_ok JNull) example_dashboard))) =
     [JStr (''Cannot read properties of null (reading '' @ [CHR 39] @ ''error'' @ [CHR 39] @ '')'')]"
proof -
  have a: "sendMessage example_engine (example_ok (JObj [(''answer'', JStr ''42'')])) = Inr None"
    by (simp add: sendMessage_def sendMessage_try_def example_ok_def ok_def get_prop_def)
  have b: "sendMessage example_engine (example_ok (JObj [(''response'', JNum 42)])) =
      Inr (Some (JNum 42))"
    by (simp add: sendMessage_def sendMessage_try_def example_ok_def ok_def get_prop_def)
  have m: "messages example_dashboard = []"
    by (simp add: example_dashboard_eval)
  have c: "map content
     (messages
        (last (handleFileUpload example_engine example_clock example_clock (Some [example_pdf])
           (example_ok JNull) example_dashboard))) =
     [JStr (''Cannot read properties of null (reading '' @ [CHR 39] @ ''error'' @ [CHR 39] @ '')'')]"
    by (simp add: handleFileUpload_def begin_example_pdf uploadFile_null_body
        handleFileUpload_resume_def setters_null_body upload_catch_def set_stage_def
        set_doc_status_def add_message_def assistant_message_def message_or_def m)
  from a b c show ?thesis by simp
qed


text \<open>
  Claim C10, amended. Neither \<^verbatim>\<open>sendMessage\<close> nor \<^verbatim>\<open>uploadFile\<close> ever rejects.
  When the call has failed (transport failure, status outside 200..299 or a body that does
  not parse), \<^verbatim>\<open>sendMessage\<close> resolves to an object whose \<^verbatim>\<open>response\<close> is a
  string and \<^verbatim>\<open>uploadFile\<close> to an object whose \<^verbatim>\<open>error\<close> is a non-empty
  string. On a 2xx response with a parsed body, \<^verbatim>\<open>uploadFile\<close> resolves to that body,
  and \<^verbatim>\<open>sendMessage\<close> to the \<^verbatim>\<open>response\<close> property of the body, whatever it
  is, or to a string when the body is \<^verbatim>\<open>null\<close>.
\<close>

theorem api_results:
  "(\<exists>v. sendMessage eng out = Inr v) \<and>
   (\<exists>d. uploadFile out = Inr d) \<and>
   (request_failed out \<longrightarrow>
      (\<exists>t. sendMessage eng out = Inr (Some (JStr t))) \<and>
      (\<exists>t. t \<noteq> [] \<and> uploadFile out = Inr (JObj [(''error'', JStr t)]))) \<and>
   (ok r \<and> res_json r = Inr data \<longrightarrow>
      uploadFile (Resolved r) = Inr data \<and>
      (data = JNull \<longrightarrow> (\<exists>t. sendMessage eng (Resolved r) = Inr (Some (JStr t)))) \<and>
      (data \<noteq> JNull \<longrightarrow> sendMessage eng (Resolved r) = get_prop eng data ''response''))"
  using sendMessage_total [of eng out] uploadFile_total [of out]
    sendMessage_failed_string [of out eng] uploadFile_failed_error [of out]
    uploadFile_body [of r data] sendMessage_body [of r data eng] sendMessage_null_body [of r eng]
  by blast

theorem api_results_witness:
  "request_failed example_401 \<and>
   (\<exists>t. sendMessage example_engine example_401 = Inr (Some (JStr t))) \<and>
   (\<exists>t. t \<noteq> [] \<and> uploadFile example_401 = Inr (JObj [(''error'', JStr t)])) \<and>
   ok \<lparr>res_status = 200, res_statusText = ''OK'', res_json = Inr (JObj [(''response'', JStr ''42'')])\<rparr> \<and>
   sendMessage example_engine (example_ok (JObj [(''response'', JStr ''42'')])) = Inr (Some (JStr ''42''))"
proof -
  have fine: "ok \<lparr>res_status = 200, res_statusText = ''OK'', res_json = Inr (JObj [(''response'', JStr ''42'')])\<rparr>"
    by (simp add: ok_def)
  from api_results [of example_engine example_401
      "\<lparr>res_status = 200, res_statusText = ''OK'', res_json = Inr (JObj [(''response'', JStr ''42'')])\<rparr>"
      "JObj [(''response'', JStr ''42'')]"] example_401_failed fine
  show ?thesis by (simp add: example_ok_def get_prop_def)
qed

end
